theory Spec2Isabelle
  imports Complex_Main
begin

section \<open>Decoded RPC documents and Python exceptions\<close>

text \<open>
  A response of the node is the document that the JSON decoder hands to the exporter:
  \<open>None\<close>, a bool, a number, a string, a list, or a dict (its items in order; a Python
  dict holds every key once). Numbers are exact: integers stay Python ints and the RPC
  proxy decodes fractional numbers as decimals, so additions are exact and a number is
  modelled as a rational. The metrics library turns every value it stores into a double;
  that rounding is outside this development, where a stored value is the exact number.
\<close>

datatype json =
    JNull
  | JBool bool
  | JNum rat
  | JStr string
  | JArr "json list"
  | JObj "(string \<times> json) list"

text \<open>
  An exception object: the qualified name of its class (\<open>__module__ + "." + __name__\<close>),
  the qualified names of the classes in the method resolution order of that class (the
  class itself included), and \<open>str(e)\<close>. \<open>SystemExit\<close> carries the exit code and
  derives from \<open>BaseException\<close> only.
\<close>

datatype exc =
    Exc string "string list" string
  | SystemExit int

fun exception_name :: "exc \<Rightarrow> string" where
  "exception_name (Exc t bases msg) = t"
| "exception_name (SystemExit c) = ''builtins.SystemExit''"

fun exc_mro :: "exc \<Rightarrow> string list" where
  "exc_mro (Exc t bases msg) = bases"
| "exc_mro (SystemExit c) = [''builtins.SystemExit'', ''builtins.BaseException'', ''builtins.object'']"

definition isinstance :: "exc \<Rightarrow> string \<Rightarrow> bool" where
  "isinstance e c = (c \<in> set (exc_mro e))"

definition builtin_error :: "string \<Rightarrow> string \<Rightarrow> exc" where
  "builtin_error name msg =
     Exc (''builtins.'' @ name)
       [''builtins.'' @ name, ''builtins.Exception'', ''builtins.BaseException'', ''builtins.object'']
       msg"

definition TypeError :: "string \<Rightarrow> exc" where
  "TypeError msg = builtin_error ''TypeError'' msg"

definition ValueError :: "string \<Rightarrow> exc" where
  "ValueError msg = builtin_error ''ValueError'' msg"

definition AttributeError :: "string \<Rightarrow> exc" where
  "AttributeError msg = builtin_error ''AttributeError'' msg"

definition KeyError :: "string \<Rightarrow> exc" where
  "KeyError key =
     Exc ''builtins.KeyError''
       [''builtins.KeyError'', ''builtins.LookupError'', ''builtins.Exception'',
        ''builtins.BaseException'', ''builtins.object'']
       key"

subsection \<open>Decimal rendering of an integer (\<open>'%d' % n\<close>)\<close>

definition digit_char :: "nat \<Rightarrow> char" where
  "digit_char d = char_of (48 + d)"

function str_nat :: "nat \<Rightarrow> string" where
  "str_nat n = (if n < 10 then [digit_char n] else str_nat (n div 10) @ [digit_char (n mod 10)])"
  by pat_completeness auto
termination
  by (relation "measure id") auto

declare str_nat.simps [simp del]

definition py_format_d :: "int \<Rightarrow> string" where
  "py_format_d i = (if i < 0 then CHR ''-'' # str_nat (nat (- i)) else str_nat (nat i))"

fun exc_str :: "exc \<Rightarrow> string" where
  "exc_str (Exc t bases msg) = msg"
| "exc_str (SystemExit c) = py_format_d c"

section \<open>The environment of the exporter\<close>

text \<open>
  What one decorated call \<open>bitcoinrpc(*args)\<close> did, as the exporter sees it: the retry
  library called \<open>on_retry(err, next_try)\<close> for each failed attempt it decided to repeat,
  and then the call returned a document or raised. The retry loop itself (time budget,
  back-off delays, number of attempts) belongs to the retry library and to the node, and
  is not part of this repository.
\<close>

record rpc_outcome =
  retried :: "(exc \<times> rat) list"
  final :: "exc + json"

text \<open>
  The environment: the node and the retry library behind \<open>bitcoinrpc\<close> (a transition of
  an arbitrary world \<open>'w\<close>), the wall clock in seconds, \<open>time.sleep\<close>, the two settings
  the cycle reads, and the three conversions of Python whose results are not computed
  here (\<open>str\<close> of a document that is not a string, \<open>float\<close> and \<open>int\<close> of a string;
  \<open>None\<close> stands for their \<open>ValueError\<close>).
\<close>

record 'w env =
  rpc :: "'w \<Rightarrow> string \<Rightarrow> json list \<Rightarrow> rpc_outcome \<times> 'w"
  now :: "'w \<Rightarrow> rat"
  sleep :: "rat \<Rightarrow> 'w \<Rightarrow> 'w"
  SMART_FEES :: "int list"
  REFRESH_SECONDS :: rat
  str_of_value :: "json \<Rightarrow> string"
  float_of_str :: "string \<Rightarrow> rat option"
  int_of_str :: "string \<Rightarrow> int option"

subsection \<open>Python's built-in operations on a decoded document\<close>

definition py_getitem :: "json \<Rightarrow> string \<Rightarrow> exc + json" where
  "py_getitem d k =
     (case d of
        JObj kvs \<Rightarrow> (case map_of kvs k of None \<Rightarrow> Inl (KeyError k) | Some v \<Rightarrow> Inr v)
      | _ \<Rightarrow> Inl (TypeError ''subscript''))"

definition py_get :: "json \<Rightarrow> string \<Rightarrow> exc + json" where
  "py_get d k =
     (case d of
        JObj kvs \<Rightarrow> (case map_of kvs k of None \<Rightarrow> Inr JNull | Some v \<Rightarrow> Inr v)
      | _ \<Rightarrow> Inl (AttributeError ''get''))"

definition py_len :: "json \<Rightarrow> exc + int" where
  "py_len d =
     (case d of
        JStr s \<Rightarrow> Inr (int (length s))
      | JArr xs \<Rightarrow> Inr (int (length xs))
      | JObj kvs \<Rightarrow> Inr (int (length kvs))
      | _ \<Rightarrow> Inl (TypeError ''len''))"

definition py_iter :: "json \<Rightarrow> exc + json list" where
  "py_iter d =
     (case d of
        JStr s \<Rightarrow> Inr (map (\<lambda>c. JStr [c]) s)
      | JArr xs \<Rightarrow> Inr xs
      | JObj kvs \<Rightarrow> Inr (map (\<lambda>kv. JStr (fst kv)) kvs)
      | _ \<Rightarrow> Inl (TypeError ''iter''))"

definition py_bool :: "json \<Rightarrow> bool" where
  "py_bool d =
     (case d of
        JNull \<Rightarrow> False
      | JBool b \<Rightarrow> b
      | JNum r \<Rightarrow> r \<noteq> 0
      | JStr s \<Rightarrow> s \<noteq> []
      | JArr xs \<Rightarrow> xs \<noteq> []
      | JObj kvs \<Rightarrow> kvs \<noteq> [])"

definition py_add :: "rat \<Rightarrow> json \<Rightarrow> exc + rat" where
  "py_add acc d =
     (case d of
        JNum r \<Rightarrow> Inr (acc + r)
      | JBool b \<Rightarrow> Inr (acc + (if b then 1 else 0))
      | _ \<Rightarrow> Inl (TypeError ''+''))"

definition py_float :: "'w env \<Rightarrow> json \<Rightarrow> exc + rat" where
  "py_float env d =
     (case d of
        JNum r \<Rightarrow> Inr r
      | JBool b \<Rightarrow> Inr (if b then 1 else 0)
      | JStr s \<Rightarrow> (case float_of_str env s of None \<Rightarrow> Inl (ValueError ''float'') | Some r \<Rightarrow> Inr r)
      | _ \<Rightarrow> Inl (TypeError ''float''))"

definition py_int :: "'w env \<Rightarrow> json \<Rightarrow> exc + int" where
  "py_int env d =
     (case d of
        JNum r \<Rightarrow> Inr (if 0 \<le> r then \<lfloor>r\<rfloor> else \<lceil>r\<rceil>)
      | JBool b \<Rightarrow> Inr (if b then 1 else 0)
      | JStr s \<Rightarrow> (case int_of_str env s of None \<Rightarrow> Inl (ValueError ''int'') | Some i \<Rightarrow> Inr i)
      | _ \<Rightarrow> Inl (TypeError ''int''))"

definition py_str :: "'w env \<Rightarrow> json \<Rightarrow> string" where
  "py_str env d = (case d of JStr s \<Rightarrow> s | _ \<Rightarrow> str_of_value env d)"

section \<open>The metrics registry\<close>

text \<open>
  The instruments the module creates when it is loaded are distinct objects bound to
  global names; \<open>Created k\<close> is the \<open>k\<close>-th gauge object created while the exporter runs.
\<close>

datatype gauge =
    BITCOIN_BLOCKS
  | BITCOIN_DIFFICULTY
  | BITCOIN_PEERS
  | BITCOIN_HASHPS_NEG1
  | BITCOIN_HASHPS_1
  | BITCOIN_HASHPS
  | BITCOIN_UPTIME
  | BITCOIN_MEMINFO_USED
  | BITCOIN_MEMINFO_FREE
  | BITCOIN_MEMINFO_TOTAL
  | BITCOIN_MEMINFO_LOCKED
  | BITCOIN_MEMINFO_CHUNKS_USED
  | BITCOIN_MEMINFO_CHUNKS_FREE
  | BITCOIN_MEMPOOL_BYTES
  | BITCOIN_MEMPOOL_SIZE
  | BITCOIN_MEMPOOL_USAGE
  | BITCOIN_LATEST_BLOCK_HEIGHT
  | BITCOIN_LATEST_BLOCK_WEIGHT
  | BITCOIN_LATEST_BLOCK_SIZE
  | BITCOIN_LATEST_BLOCK_TXS
  | BITCOIN_NUM_CHAINTIPS
  | BITCOIN_TOTAL_BYTES_RECV
  | BITCOIN_TOTAL_BYTES_SENT
  | BITCOIN_LATEST_BLOCK_INPUTS
  | BITCOIN_LATEST_BLOCK_OUTPUTS
  | BITCOIN_LATEST_BLOCK_VALUE
  | BITCOIN_SERVER_VERSION
  | BITCOIN_PROTOCOL_VERSION
  | BITCOIN_SIZE_ON_DISK
  | Created nat

datatype counter = BITCOIN_WARNINGS | PROCESS_TIME

datatype family = BITCOIN_BAN_CREATED | BITCOIN_BANNED_UNTIL

text \<open>
  The names under which the instruments of the module are registered; a counter also
  reserves its \<open>_total\<close> and \<open>_created\<close> series.
\<close>

definition static_names :: "string list" where
  "static_names =
    [''bitcoin_blocks'', ''bitcoin_difficulty'', ''bitcoin_peers'', ''bitcoin_hashps_neg1'',
     ''bitcoin_hashps_1'', ''bitcoin_hashps'',
     ''bitcoin_warnings'', ''bitcoin_warnings_total'', ''bitcoin_warnings_created'',
     ''bitcoin_uptime'',
     ''bitcoin_meminfo_used'', ''bitcoin_meminfo_free'', ''bitcoin_meminfo_total'',
     ''bitcoin_meminfo_locked'', ''bitcoin_meminfo_chunks_used'', ''bitcoin_meminfo_chunks_free'',
     ''bitcoin_mempool_bytes'', ''bitcoin_mempool_size'', ''bitcoin_mempool_usage'',
     ''bitcoin_latest_block_height'', ''bitcoin_latest_block_weight'',
     ''bitcoin_latest_block_size'', ''bitcoin_latest_block_txs'',
     ''bitcoin_num_chaintips'',
     ''bitcoin_total_bytes_recv'', ''bitcoin_total_bytes_sent'',
     ''bitcoin_latest_block_inputs'', ''bitcoin_latest_block_outputs'',
     ''bitcoin_latest_block_value'',
     ''bitcoin_ban_created'', ''bitcoin_banned_until'',
     ''bitcoin_server_version'', ''bitcoin_protocol_version'',
     ''bitcoin_size_on_disk'',
     ''bitcoin_exporter_errors'', ''bitcoin_exporter_errors_total'',
     ''bitcoin_exporter_errors_created'',
     ''bitcoin_exporter_process_time'', ''bitcoin_exporter_process_time_total'',
     ''bitcoin_exporter_process_time_created'']"

text \<open>
  The state of the process: the world behind the RPC interface, the value of every gauge
  and counter (a new instrument holds 0), the children of the two labelled gauge families
  and of the labelled error counter (a child exists from the first \<open>labels(...)\<close> call),
  the name and help text of the gauges created at run time, the dictionary
  \<open>BITCOIN_ESTIMATED_SMART_FEE_GAUGES\<close> (it only ever receives gauges created at run
  time, kept by their creation index), and the lines printed so far.
\<close>

record 'w state =
  world :: 'w
  gauge_value :: "gauge \<Rightarrow> rat"
  counter_value :: "counter \<Rightarrow> rat"
  family_children :: "family \<Rightarrow> string \<times> string \<Rightarrow> rat option"
  EXPORTER_ERRORS :: "string \<Rightarrow> rat option"
  created_gauges :: "(string \<times> string) list"
  BITCOIN_ESTIMATED_SMART_FEE_GAUGES :: "int \<Rightarrow> nat option"
  stdout :: "string list"

definition initial_state :: "'w \<Rightarrow> 'w state" where
  "initial_state w =
     \<lparr> world = w,
       gauge_value = (\<lambda>g. 0),
       counter_value = (\<lambda>c. 0),
       family_children = (\<lambda>f k. None),
       EXPORTER_ERRORS = (\<lambda>t. None),
       created_gauges = [],
       BITCOIN_ESTIMATED_SMART_FEE_GAUGES = (\<lambda>n. None),
       stdout = [] \<rparr>"

subsection \<open>Statements: state transformers that return or raise\<close>

type_synonym ('a, 'w) prog = "'w state \<Rightarrow> (exc + 'a) \<times> 'w state"

definition return :: "'a \<Rightarrow> ('a, 'w) prog" where
  "return a = (\<lambda>s. (Inr a, s))"

definition raise :: "exc \<Rightarrow> ('a, 'w) prog" where
  "raise e = (\<lambda>s. (Inl e, s))"

definition lift :: "exc + 'a \<Rightarrow> ('a, 'w) prog" where
  "lift r = (\<lambda>s. (r, s))"

definition bind :: "('a, 'w) prog \<Rightarrow> ('a \<Rightarrow> ('b, 'w) prog) \<Rightarrow> ('b, 'w) prog" where
  "bind m f = (\<lambda>s. case m s of (Inl e, s') \<Rightarrow> (Inl e, s') | (Inr a, s') \<Rightarrow> f a s')"

fun run_all :: "(unit, 'w) prog list \<Rightarrow> (unit, 'w) prog" where
  "run_all [] = return ()"
| "run_all (m # ms) = bind m (\<lambda>_. run_all ms)"

fun for_each :: "'a list \<Rightarrow> ('a \<Rightarrow> (unit, 'w) prog) \<Rightarrow> (unit, 'w) prog" where
  "for_each [] body = return ()"
| "for_each (x # xs) body = bind (body x) (\<lambda>_. for_each xs body)"

definition bindE :: "exc + 'a \<Rightarrow> ('a \<Rightarrow> exc + 'b) \<Rightarrow> exc + 'b" where
  "bindE r f = (case r of Inl e \<Rightarrow> Inl e | Inr a \<Rightarrow> f a)"

definition print :: "string \<Rightarrow> (unit, 'w) prog" where
  "print line = (\<lambda>s. (Inr (), s\<lparr>stdout := stdout s @ [line]\<rparr>))"

subsection \<open>Operations of the metrics library\<close>

text \<open>\<open>g.set(v)\<close> converts \<open>v\<close> with \<open>float\<close> and stores it.\<close>

definition store_gauge :: "gauge \<Rightarrow> rat \<Rightarrow> (unit, 'w) prog" where
  "store_gauge g v = (\<lambda>s. (Inr (), s\<lparr>gauge_value := (gauge_value s)(g := v)\<rparr>))"

definition Gauge_set :: "'w env \<Rightarrow> gauge \<Rightarrow> json \<Rightarrow> (unit, 'w) prog" where
  "Gauge_set env g v = bind (lift (py_float env v)) (store_gauge g)"

text \<open>\<open>c.inc(amount)\<close> refuses a negative amount with \<open>ValueError\<close>.\<close>

definition Counter_inc :: "counter \<Rightarrow> rat \<Rightarrow> (unit, 'w) prog" where
  "Counter_inc c amount =
     (\<lambda>s. if amount < 0 then (Inl (ValueError ''inc''), s)
          else (Inr (), s\<lparr>counter_value := (counter_value s)(c := counter_value s c + amount)\<rparr>))"

text \<open>
  \<open>family.labels(address=a, reason=r)\<close> turns the label values into strings and returns
  the child of that label tuple, creating it with value 0 when it does not exist yet.
\<close>

definition family_labels :: "'w env \<Rightarrow> family \<Rightarrow> json \<Rightarrow> json \<Rightarrow> (string \<times> string, 'w) prog" where
  "family_labels env f address reason =
     (\<lambda>s. let k = (py_str env address, py_str env reason) in
          (Inr k,
           s\<lparr>family_children := (family_children s)
               (f := (family_children s f)
                  (k := Some (case family_children s f k of None \<Rightarrow> 0 | Some v \<Rightarrow> v)))\<rparr>))"

definition store_child :: "family \<Rightarrow> string \<times> string \<Rightarrow> rat \<Rightarrow> (unit, 'w) prog" where
  "store_child f k v =
     (\<lambda>s. (Inr (), s\<lparr>family_children := (family_children s)(f := (family_children s f)(k := Some v))\<rparr>))"

definition child_set :: "'w env \<Rightarrow> family \<Rightarrow> string \<times> string \<Rightarrow> json \<Rightarrow> (unit, 'w) prog" where
  "child_set env f k v = bind (lift (py_float env v)) (store_child f k)"

text \<open>\<open>EXPORTER_ERRORS.labels(type=t).inc()\<close>.\<close>

definition EXPORTER_ERRORS_inc :: "string \<Rightarrow> (unit, 'w) prog" where
  "EXPORTER_ERRORS_inc t =
     (\<lambda>s. (Inr (), s\<lparr>EXPORTER_ERRORS := (EXPORTER_ERRORS s)
               (t := Some ((case EXPORTER_ERRORS s t of None \<Rightarrow> 0 | Some v \<Rightarrow> v) + 1))\<rparr>))"

text \<open>
  \<open>Gauge(name, documentation)\<close> registers a new gauge object; the registry refuses a
  name that is already taken with \<open>ValueError\<close>.
\<close>

definition Gauge :: "string \<Rightarrow> string \<Rightarrow> (nat, 'w) prog" where
  "Gauge name documentation =
     (\<lambda>s. if name \<in> set static_names \<union> fst ` set (created_gauges s)
          then (Inl (ValueError ''Duplicated timeseries in CollectorRegistry''), s)
          else (Inr (length (created_gauges s)),
                s\<lparr>created_gauges := created_gauges s @ [(name, documentation)]\<rparr>))"

definition try_except ::
  "('a, 'w) prog \<Rightarrow> string \<Rightarrow> (exc \<Rightarrow> ('a, 'w) prog) \<Rightarrow> ('a, 'w) prog" where
  "try_except m cls handler =
     (\<lambda>s. case m s of
            (Inl e, s') \<Rightarrow> if isinstance e cls then handler e s' else (Inl e, s')
          | (Inr a, s') \<Rightarrow> (Inr a, s'))"

definition datetime_now :: "'w env \<Rightarrow> (rat, 'w) prog" where
  "datetime_now env = (\<lambda>s. (Inr (now env (world s)), s))"

text \<open>\<open>time.sleep(secs)\<close> refuses a negative length with \<open>ValueError\<close>.\<close>

definition time_sleep :: "'w env \<Rightarrow> rat \<Rightarrow> (unit, 'w) prog" where
  "time_sleep env secs =
     (\<lambda>s. if secs < 0 then (Inl (ValueError ''sleep length must be non-negative''), s)
          else (Inr (), s\<lparr>world := sleep env secs (world s)\<rparr>))"

section \<open>The exporter\<close>

subsection \<open>Remote calls\<close>

definition RETRY_EXCEPTIONS :: "string list" where
  "RETRY_EXCEPTIONS = [''bitcoin.rpc.InWarmupError'', ''builtins.ConnectionRefusedError'']"

definition on_retry :: "exc \<Rightarrow> rat \<Rightarrow> (unit, 'w) prog" where
  "on_retry err next_try = EXPORTER_ERRORS_inc (exception_name err)"

definition error_evaluator :: "exc \<Rightarrow> bool" where
  "error_evaluator e = (\<exists>c \<in> set RETRY_EXCEPTIONS. isinstance e c)"

text \<open>
  The decorated \<open>bitcoinrpc\<close>. Its body (lines 110 to 126) opens a connection, from the
  configuration file of the node or from the settings, and makes the call; the retry
  library runs that body, once or several times. The world says how this went; the
  exporter's own parts are \<open>error_evaluator\<close>, which tells the library which exceptions
  to retry, and \<open>on_retry\<close>, run once for each repeated attempt.
\<close>

definition bitcoinrpc :: "'w env \<Rightarrow> string \<Rightarrow> json list \<Rightarrow> (json, 'w) prog" where
  "bitcoinrpc env method args =
     (\<lambda>s. case rpc env (world s) method args of
            (out, w') \<Rightarrow>
              bind (for_each (retried out) (\<lambda>(err, next_try). on_retry err next_try))
                   (\<lambda>_. lift (final out))
                   (s\<lparr>world := w'\<rparr>))"

text \<open>\<open>get_block\<close> returns \<open>None\<close>, here \<open>JNull\<close>, when the call raised an \<open>Exception\<close>.\<close>

definition get_block :: "'w env \<Rightarrow> string \<Rightarrow> (json, 'w) prog" where
  "get_block env block_hash =
     try_except (bitcoinrpc env ''getblock'' [JStr block_hash, JNum 2]) ''builtins.Exception''
       (\<lambda>e. bind (print (exc_str e))
         (\<lambda>_. bind (print (''Error: Can't retrieve block '' @ block_hash @ '' from bitcoind.''))
         (\<lambda>_. return JNull)))"

subsection \<open>Fee estimates\<close>

definition smartfee_gauge :: "int \<Rightarrow> (gauge, 'w) prog" where
  "smartfee_gauge num_blocks =
     (\<lambda>s. case BITCOIN_ESTIMATED_SMART_FEE_GAUGES s num_blocks of
            None \<Rightarrow>
              bind (Gauge (''bitcoin_est_smart_fee_'' @ py_format_d num_blocks)
                      (''Estimated smart fee per kilobyte for confirmation in ''
                         @ py_format_d num_blocks @ '' blocks''))
                (\<lambda>k s'. (Inr (Created k),
                   s'\<lparr>BITCOIN_ESTIMATED_SMART_FEE_GAUGES :=
                        (BITCOIN_ESTIMATED_SMART_FEE_GAUGES s')(num_blocks := Some k)\<rparr>))
                s
          | Some k \<Rightarrow> (Inr (Created k), s))"

definition do_smartfee :: "'w env \<Rightarrow> int \<Rightarrow> (unit, 'w) prog" where
  "do_smartfee env num_blocks =
     bind (bitcoinrpc env ''estimatesmartfee'' [JNum (of_int num_blocks)]) (\<lambda>r.
     bind (lift (py_get r ''feerate'')) (\<lambda>smartfee.
       if smartfee \<noteq> JNull
       then bind (smartfee_gauge num_blocks) (\<lambda>gauge. Gauge_set env gauge smartfee)
       else return ()))"

subsection \<open>One collection cycle\<close>

text \<open>The local variables of \<open>refresh_metrics\<close> after its remote calls (lines 158 to 170).\<close>

record fetched =
  uptime :: int
  meminfo :: json
  blockchaininfo :: json
  networkinfo :: json
  chaintips :: int
  mempool :: json
  nettotals :: json
  latest_block :: json
  hashps_120 :: rat
  hashps_neg1 :: rat
  hashps_1 :: rat
  banned :: json

definition refresh_fetch :: "'w env \<Rightarrow> (fetched, 'w) prog" where
  "refresh_fetch env =
     bind (bitcoinrpc env ''uptime'' []) (\<lambda>r1.
     bind (lift (py_int env r1)) (\<lambda>uptime'.
     bind (bitcoinrpc env ''getmemoryinfo'' [JStr ''stats'']) (\<lambda>r2.
     bind (lift (py_getitem r2 ''locked'')) (\<lambda>meminfo'.
     bind (bitcoinrpc env ''getblockchaininfo'' []) (\<lambda>blockchaininfo'.
     bind (bitcoinrpc env ''getnetworkinfo'' []) (\<lambda>networkinfo'.
     bind (bitcoinrpc env ''getchaintips'' []) (\<lambda>r3.
     bind (lift (py_len r3)) (\<lambda>chaintips'.
     bind (bitcoinrpc env ''getmempoolinfo'' []) (\<lambda>mempool'.
     bind (bitcoinrpc env ''getnettotals'' []) (\<lambda>nettotals'.
     bind (lift (py_getitem blockchaininfo' ''bestblockhash'')) (\<lambda>h.
     bind (get_block env (py_str env h)) (\<lambda>latest_block'.
     bind (bitcoinrpc env ''getnetworkhashps'' [JNum 120]) (\<lambda>r4.
     bind (lift (py_float env r4)) (\<lambda>hashps_120'.
     bind (bitcoinrpc env ''getnetworkhashps'' [JNum (- 1)]) (\<lambda>r5.
     bind (lift (py_float env r5)) (\<lambda>hashps_neg1'.
     bind (bitcoinrpc env ''getnetworkhashps'' [JNum 1]) (\<lambda>r6.
     bind (lift (py_float env r6)) (\<lambda>hashps_1'.
     bind (bitcoinrpc env ''listbanned'' []) (\<lambda>banned'.
     return \<lparr> uptime = uptime', meminfo = meminfo', blockchaininfo = blockchaininfo',
              networkinfo = networkinfo', chaintips = chaintips', mempool = mempool',
              nettotals = nettotals', latest_block = latest_block',
              hashps_120 = hashps_120', hashps_neg1 = hashps_neg1', hashps_1 = hashps_1',
              banned = banned' \<rparr>)))))))))))))))))))"

text \<open>\<open>G.set(d[key])\<close>: the lookup, then the conversion, then the store.\<close>

definition set_item :: "'w env \<Rightarrow> gauge \<Rightarrow> json \<Rightarrow> string \<Rightarrow> (unit, 'w) prog" where
  "set_item env g d key = bind (lift (py_getitem d key)) (Gauge_set env g)"

text \<open>Lines 172 to 181.\<close>

definition refresh_node :: "'w env \<Rightarrow> fetched \<Rightarrow> (unit, 'w) prog" where
  "refresh_node env f =
     run_all
       [store_gauge BITCOIN_UPTIME (of_int (uptime f)),
        set_item env BITCOIN_BLOCKS (blockchaininfo f) ''blocks'',
        set_item env BITCOIN_PEERS (networkinfo f) ''connections'',
        set_item env BITCOIN_DIFFICULTY (blockchaininfo f) ''difficulty'',
        store_gauge BITCOIN_HASHPS (hashps_120 f),
        store_gauge BITCOIN_HASHPS_NEG1 (hashps_neg1 f),
        store_gauge BITCOIN_HASHPS_1 (hashps_1 f),
        set_item env BITCOIN_SERVER_VERSION (networkinfo f) ''version'',
        set_item env BITCOIN_PROTOCOL_VERSION (networkinfo f) ''protocolversion'',
        set_item env BITCOIN_SIZE_ON_DISK (blockchaininfo f) ''size_on_disk'']"

text \<open>Lines 186 to 188: the body of the loop over the banned peers.\<close>

definition refresh_ban :: "'w env \<Rightarrow> json \<Rightarrow> (unit, 'w) prog" where
  "refresh_ban env ban =
     bind (lift (py_getitem ban ''address'')) (\<lambda>a1.
     bind (lift (py_getitem ban ''ban_reason'')) (\<lambda>r1.
     bind (family_labels env BITCOIN_BAN_CREATED a1 r1) (\<lambda>child1.
     bind (lift (py_getitem ban ''ban_created'')) (\<lambda>v1.
     bind (child_set env BITCOIN_BAN_CREATED child1 v1) (\<lambda>_.
     bind (lift (py_getitem ban ''address'')) (\<lambda>a2.
     bind (lift (py_getitem ban ''ban_reason'')) (\<lambda>r2.
     bind (family_labels env BITCOIN_BANNED_UNTIL a2 r2) (\<lambda>child2.
     bind (lift (py_getitem ban ''banned_until'')) (\<lambda>v2.
     child_set env BITCOIN_BANNED_UNTIL child2 v2)))))))))"

definition refresh_bans :: "'w env \<Rightarrow> fetched \<Rightarrow> (unit, 'w) prog" where
  "refresh_bans env f =
     bind (lift (py_iter (banned f))) (\<lambda>bans. for_each bans (refresh_ban env))"

text \<open>Lines 190 and 191.\<close>

definition refresh_warnings :: "fetched \<Rightarrow> (unit, 'w) prog" where
  "refresh_warnings f =
     bind (lift (py_getitem (networkinfo f) ''warnings'')) (\<lambda>w.
       if py_bool w then Counter_inc BITCOIN_WARNINGS 1 else return ())"

text \<open>Lines 193 to 207.\<close>

definition refresh_resources :: "'w env \<Rightarrow> fetched \<Rightarrow> (unit, 'w) prog" where
  "refresh_resources env f =
     run_all
       [store_gauge BITCOIN_NUM_CHAINTIPS (of_int (chaintips f)),
        set_item env BITCOIN_MEMINFO_USED (meminfo f) ''used'',
        set_item env BITCOIN_MEMINFO_FREE (meminfo f) ''free'',
        set_item env BITCOIN_MEMINFO_TOTAL (meminfo f) ''total'',
        set_item env BITCOIN_MEMINFO_LOCKED (meminfo f) ''locked'',
        set_item env BITCOIN_MEMINFO_CHUNKS_USED (meminfo f) ''chunks_used'',
        set_item env BITCOIN_MEMINFO_CHUNKS_FREE (meminfo f) ''chunks_free'',
        set_item env BITCOIN_MEMPOOL_BYTES (mempool f) ''bytes'',
        set_item env BITCOIN_MEMPOOL_SIZE (mempool f) ''size'',
        set_item env BITCOIN_MEMPOOL_USAGE (mempool f) ''usage'',
        set_item env BITCOIN_TOTAL_BYTES_RECV (nettotals f) ''totalbytesrecv'',
        set_item env BITCOIN_TOTAL_BYTES_SENT (nettotals f) ''totalbytessent'']"

text \<open>\<open>sum(o["value"] for o in tx['vout'])\<close>, from the accumulator on.\<close>

fun sum_values :: "json list \<Rightarrow> rat \<Rightarrow> exc + rat" where
  "sum_values [] acc = Inr acc"
| "sum_values (o1 # os) acc =
     bindE (py_getitem o1 ''value'') (\<lambda>v. bindE (py_add acc v) (sum_values os))"

text \<open>Lines 216 to 221: the loop over the transactions, from \<open>(inputs, outputs, value)\<close> on.\<close>

fun block_totals :: "json list \<Rightarrow> int \<times> int \<times> rat \<Rightarrow> exc + int \<times> int \<times> rat" where
  "block_totals [] acc = Inr acc"
| "block_totals (tx # txs) (inputs, outputs, value) =
     bindE (py_getitem tx ''vin'') (\<lambda>vin.
     bindE (py_len vin) (\<lambda>i.
     bindE (py_getitem tx ''vout'') (\<lambda>vout.
     bindE (py_len vout) (\<lambda>n.
     bindE (py_getitem tx ''vout'') (\<lambda>vout'.
     bindE (py_iter vout') (\<lambda>outs.
     bindE (sum_values outs 0) (\<lambda>total.
       block_totals txs (inputs + i, outputs + n, value + total))))))))"

text \<open>Lines 209 to 225.\<close>

definition refresh_latest_block :: "'w env \<Rightarrow> fetched \<Rightarrow> (unit, 'w) prog" where
  "refresh_latest_block env f =
     (if latest_block f \<noteq> JNull
      then run_all
        [set_item env BITCOIN_LATEST_BLOCK_SIZE (latest_block f) ''size'',
         set_item env BITCOIN_LATEST_BLOCK_TXS (latest_block f) ''nTx'',
         set_item env BITCOIN_LATEST_BLOCK_HEIGHT (latest_block f) ''height'',
         set_item env BITCOIN_LATEST_BLOCK_WEIGHT (latest_block f) ''weight'',
         bind (lift (py_getitem (latest_block f) ''tx'')) (\<lambda>txs.
         bind (lift (py_iter txs)) (\<lambda>txl.
         bind (lift (block_totals txl (0, 0, 0))) (\<lambda>(inputs, outputs, value).
           run_all
             [store_gauge BITCOIN_LATEST_BLOCK_INPUTS (of_int inputs),
              store_gauge BITCOIN_LATEST_BLOCK_OUTPUTS (of_int outputs),
              store_gauge BITCOIN_LATEST_BLOCK_VALUE value])))]
      else return ())"

text \<open>Lines 172 to 207: every write of the cycle before the block of lines 209 to 225.\<close>

definition refresh_publish :: "'w env \<Rightarrow> fetched \<Rightarrow> (unit, 'w) prog" where
  "refresh_publish env f =
     run_all
       [refresh_node env f,
        for_each (SMART_FEES env) (do_smartfee env),
        refresh_bans env f,
        refresh_warnings f,
        refresh_resources env f]"

definition refresh_metrics :: "'w env \<Rightarrow> (unit, 'w) prog" where
  "refresh_metrics env =
     bind (refresh_fetch env) (\<lambda>f.
     bind (refresh_publish env f) (\<lambda>_. refresh_latest_block env f))"

subsection \<open>The scheduler loop\<close>

definition exception_count :: "exc \<Rightarrow> (unit, 'w) prog" where
  "exception_count e = EXPORTER_ERRORS_inc (exception_name e)"

text \<open>Lines 248 to 255: the \<open>try\<close> statement; \<open>sys.exit(1)\<close> raises \<open>SystemExit\<close>.\<close>

definition try_refresh :: "'w env \<Rightarrow> (unit, 'w) prog" where
  "try_refresh env =
     (\<lambda>s. case refresh_metrics env s of
            (Inl e, s') \<Rightarrow>
              if isinstance e ''riprova.exceptions.RetryError''
              then bind (print (''Refresh failed during retry. Cause: '' @ exc_str e))
                     (\<lambda>_. exception_count e) s'
              else if isinstance e ''json.decoder.JSONDecodeError''
              then bind (print (''RPC call did not return JSON. Bad credentials? '' @ exc_str e))
                     (\<lambda>_. raise (SystemExit 1)) s'
              else (Inl e, s')
          | (Inr u, s') \<Rightarrow> (Inr u, s'))"

text \<open>Lines 245 to 260: one pass of the \<open>while True\<close> loop.\<close>

definition main_cycle :: "'w env \<Rightarrow> (unit, 'w) prog" where
  "main_cycle env =
     bind (datetime_now env) (\<lambda>process_start.
     bind (try_refresh env) (\<lambda>_.
     bind (datetime_now env) (\<lambda>t.
     bind (Counter_inc PROCESS_TIME (t - process_start)) (\<lambda>_.
     time_sleep env (REFRESH_SECONDS env)))))"

text \<open>
  The loop never returns. \<open>main n\<close> observes it for at most \<open>n\<close> passes: \<open>None\<close> when the
  process is still running after them, the exception that ended the process otherwise.
  The start of the HTTP server and the handler of the termination signal (lines 228 to
  243) are not part of the loop and are left out.
\<close>

fun main :: "nat \<Rightarrow> 'w env \<Rightarrow> 'w state \<Rightarrow> exc option \<times> 'w state" where
  "main 0 env s = (None, s)"
| "main (Suc n) env s =
     (case main_cycle env s of
        (Inl e, s') \<Rightarrow> (Some e, s')
      | (Inr u, s') \<Rightarrow> main n env s')"


section \<open>Notions used to state the properties\<close>

text \<open>A statement maintains a property \<open>P\<close> of the state, however it ends.\<close>

definition maintains :: "('w state \<Rightarrow> bool) \<Rightarrow> ('a, 'w) prog \<Rightarrow> bool" where
  "maintains P m = (\<forall>s. P s \<longrightarrow> P (snd (m s)))"

text \<open>The seven instruments of the latest block.\<close>

definition block_gauges :: "gauge list" where
  "block_gauges =
     [BITCOIN_LATEST_BLOCK_SIZE, BITCOIN_LATEST_BLOCK_TXS, BITCOIN_LATEST_BLOCK_HEIGHT,
      BITCOIN_LATEST_BLOCK_WEIGHT, BITCOIN_LATEST_BLOCK_INPUTS, BITCOIN_LATEST_BLOCK_OUTPUTS,
      BITCOIN_LATEST_BLOCK_VALUE]"

subsection \<open>A block as the specification reads it\<close>







subsection \<open>The fee gauges and their dictionary\<close>

definition fee_gauge_name :: "int \<Rightarrow> string" where
  "fee_gauge_name n = ''bitcoin_est_smart_fee_'' @ py_format_d n"

text \<open>
  The dictionary and the gauges created at run time fit together: an entry for \<open>n\<close> is
  the index of a created gauge named after \<open>n\<close>, and every created gauge is the entry
  of some \<open>n\<close>.
\<close>

definition fee_gauges_ok :: "'w state \<Rightarrow> bool" where
  "fee_gauges_ok s =
     ((\<forall>n k. BITCOIN_ESTIMATED_SMART_FEE_GAUGES s n = Some k \<longrightarrow>
          k < length (created_gauges s) \<and> fst (created_gauges s ! k) = fee_gauge_name n) \<and>
      (\<forall>k < length (created_gauges s). \<exists>n. BITCOIN_ESTIMATED_SMART_FEE_GAUGES s n = Some k))"

subsection \<open>Example data\<close>

definition JSONDecodeError :: exc where
  "JSONDecodeError =
     Exc ''json.decoder.JSONDecodeError''
       [''json.decoder.JSONDecodeError'', ''builtins.ValueError'', ''builtins.Exception'',
        ''builtins.BaseException'', ''builtins.object'']
       ''Expecting value: line 1 column 1 (char 0)''"

definition RetryTimeoutError :: exc where
  "RetryTimeoutError =
     Exc ''riprova.exceptions.RetryTimeoutError''
       [''riprova.exceptions.RetryTimeoutError'', ''riprova.exceptions.RetryError'',
        ''builtins.Exception'', ''builtins.BaseException'', ''builtins.object'']
       ''max timeout exceeded''"

definition example_tx :: "nat \<Rightarrow> rat list \<Rightarrow> json" where
  "example_tx n_in values =
     JObj [(''txid'', JStr ''f00d''),
           (''vin'', JArr (replicate n_in (JObj [(''vout'', JNum 0)]))),
           (''vout'', JArr (map (\<lambda>v. JObj [(''value'', JNum v), (''n'', JNum 0)]) values))]"

text \<open>
  A block of three transactions with (inputs, outputs, output values) =
  (2, 1, 5.0), (1, 2, 3.0 + 1.0), (3, 1, 10.0).
\<close>

definition example_block :: json where
  "example_block =
     JObj [(''hash'', JStr ''00ab''), (''size'', JNum 1000), (''nTx'', JNum 3),
           (''height'', JNum 700000), (''weight'', JNum 4000),
           (''tx'', JArr [example_tx 2 [5], example_tx 1 [3, 1], example_tx 3 [10]])]"

definition example_ban :: "string \<Rightarrow> string \<Rightarrow> json" where
  "example_ban address reason =
     JObj [(''address'', JStr address), (''ban_reason'', JStr reason),
           (''ban_created'', JNum 100), (''banned_until'', JNum 200)]"

definition example_response :: "string \<Rightarrow> exc + json" where
  "example_response method =
    (if method = ''uptime'' then Inr (JNum 3600)
     else if method = ''getmemoryinfo'' then
       Inr (JObj [(''locked'', JObj [(''used'', JNum 1), (''free'', JNum 2), (''total'', JNum 3),
                   (''locked'', JNum 4), (''chunks_used'', JNum 5), (''chunks_free'', JNum 6)])])
     else if method = ''getblockchaininfo'' then
       Inr (JObj [(''blocks'', JNum 700000), (''difficulty'', JNum 7), (''size_on_disk'', JNum 8),
                  (''bestblockhash'', JStr ''00ab'')])
     else if method = ''getnetworkinfo'' then
       Inr (JObj [(''connections'', JNum 9), (''version'', JNum 210000),
                  (''protocolversion'', JNum 70016),
                  (''warnings'', JArr [JStr ''pre-release build'', JStr ''clock skew''])])
     else if method = ''getchaintips'' then Inr (JArr [JObj [(''height'', JNum 700000)]])
     else if method = ''getmempoolinfo'' then
       Inr (JObj [(''bytes'', JNum 10), (''size'', JNum 11), (''usage'', JNum 12)])
     else if method = ''getnettotals'' then
       Inr (JObj [(''totalbytesrecv'', JNum 13), (''totalbytessent'', JNum 14)])
     else if method = ''getblock'' then Inr example_block
     else if method = ''getnetworkhashps'' then Inr (JNum 15)
     else if method = ''estimatesmartfee'' then Inr (JObj [(''feerate'', JNum 16)])
     else if method = ''listbanned'' then
       Inr (JArr [example_ban ''10.0.0.1'' ''manually added'',
                  example_ban ''10.0.0.1'' ''node misbehaving''])
     else Inl (TypeError method))"

text \<open>
  A node that answers every call at once with \<open>example_response\<close>, except for the
  methods that \<open>override\<close> names; its world is the number of calls and seconds so far.
\<close>

definition example_env :: "(string \<Rightarrow> (exc + json) option) \<Rightarrow> nat env" where
  "example_env override =
     \<lparr> rpc = (\<lambda>w method args.
          (\<lparr> retried = [],
              final = (case override method of None \<Rightarrow> example_response method | Some r \<Rightarrow> r) \<rparr>,
           Suc w)),
       now = (\<lambda>w. of_nat w),
       sleep = (\<lambda>secs w. w + nat \<lfloor>secs\<rfloor>),
       SMART_FEES = [2, 3, 5, 20],
       REFRESH_SECONDS = 300,
       str_of_value = (\<lambda>d. ''''),
       float_of_str = (\<lambda>s. None),
       int_of_str = (\<lambda>s. None) \<rparr>"

text \<open>What the cycle has fetched from the example node when no method is overridden.\<close>

definition example_fetched :: fetched where
  "example_fetched =
     \<lparr> uptime = 3600,
       meminfo = JObj [(''used'', JNum 1), (''free'', JNum 2), (''total'', JNum 3),
                   (''locked'', JNum 4), (''chunks_used'', JNum 5), (''chunks_free'', JNum 6)],
       blockchaininfo = JObj [(''blocks'', JNum 700000), (''difficulty'', JNum 7),
                   (''size_on_disk'', JNum 8), (''bestblockhash'', JStr ''00ab'')],
       networkinfo = JObj [(''connections'', JNum 9), (''version'', JNum 210000),
                  (''protocolversion'', JNum 70016),
                  (''warnings'', JArr [JStr ''pre-release build'', JStr ''clock skew''])],
       chaintips = 1,
       mempool = JObj [(''bytes'', JNum 10), (''size'', JNum 11), (''usage'', JNum 12)],
       nettotals = JObj [(''totalbytesrecv'', JNum 13), (''totalbytessent'', JNum 14)],
       latest_block = example_block,
       hashps_120 = 15, hashps_neg1 = 15, hashps_1 = 15,
       banned = JArr [example_ban ''10.0.0.1'' ''manually added'',
                  example_ban ''10.0.0.1'' ''node misbehaving''] \<rparr>"

subsection \<open>A ban as the specification reads it\<close>





subsection \<open>The plain gauges of a cycle as the specification lists them\<close>





section \<open>Basic facts\<close>

subsection \<open>Sequencing\<close>

lemma bind_apply:
  "bind m f s = (case m s of (Inl e, s') \<Rightarrow> (Inl e, s') | (Inr a, s') \<Rightarrow> f a s')"
  by (simp add: bind_def)

lemma bind_return [simp]: "bind (return a) f = f a"
  by (simp add: bind_def return_def)

lemma bind_lift_Inr [simp]: "bind (lift (Inr a)) f = f a"
  by (simp add: bind_def lift_def)

lemma bind_lift_Inl [simp]: "bind (lift (Inl e)) f = raise e"
  by (simp add: bind_def lift_def raise_def)

lemma bind_raise [simp]: "bind (raise e) f = raise e"
  by (simp add: bind_def raise_def)

lemma prog_apply:
  "lift r s = (r, s)" "return a s = (Inr a, s)" "raise e s = (Inl e, s)"
  by (simp_all add: lift_def return_def raise_def)

lemma bind_Inl: "m s = (Inl e, s') \<Longrightarrow> bind m f s = (Inl e, s')"
  by (simp add: bind_def)

lemma bind_Inr: "m s = (Inr a, s') \<Longrightarrow> bind m f s = f a s'"
  by (simp add: bind_def)


subsection \<open>Properties that a statement maintains\<close>

lemma maintainsD: "maintains P m \<Longrightarrow> m s = (r, s') \<Longrightarrow> P s \<Longrightarrow> P s'"
  by (auto simp: maintains_def dest: spec[where x=s])

lemma maintains_bind:
  "maintains P m \<Longrightarrow> (\<And>a. maintains P (f a)) \<Longrightarrow> maintains P (bind m f)"
  by (auto simp: maintains_def bind_def split: prod.splits sum.splits)

lemma maintains_bind_post:
  assumes "maintains P m" and "\<And>s a s'. m s = (Inr a, s') \<Longrightarrow> Q a"
    and "\<And>a. Q a \<Longrightarrow> maintains P (f a)"
  shows "maintains P (bind m f)"
  unfolding maintains_def
proof (intro allI impI)
  fix s assume P: "P s"
  obtain r s1 where ms: "m s = (r, s1)" by (cases "m s")
  have P1: "P s1" using maintainsD[OF assms(1) ms P] .
  show "P (snd (bind m f s))"
  proof (cases r)
    case (Inl e)
    then show ?thesis using ms P1 by (simp add: bind_def)
  next
    case (Inr a)
    then have "Q a" using assms(2) ms by simp
    then have "maintains P (f a)" by (rule assms(3))
    then have "P (snd (f a s1))" using P1 by (simp add: maintains_def)
    then show ?thesis using ms Inr by (simp add: bind_def)
  qed
qed

lemma maintains_return: "maintains P (return a)"
  by (simp add: maintains_def return_def)

lemma maintains_raise: "maintains P (raise e)"
  by (simp add: maintains_def raise_def)

lemma maintains_lift: "maintains P (lift r)"
  by (simp add: maintains_def lift_def)

lemma maintains_run_all:
  "(\<And>m. m \<in> set ms \<Longrightarrow> maintains P m) \<Longrightarrow> maintains P (run_all ms)"
  by (induction ms) (auto intro!: maintains_bind maintains_return)

lemma maintains_for_each:
  "(\<And>x. x \<in> set xs \<Longrightarrow> maintains P (body x)) \<Longrightarrow> maintains P (for_each xs body)"
  by (induction xs) (auto intro!: maintains_bind maintains_return)

lemma maintains_try_except:
  "maintains P m \<Longrightarrow> (\<And>e. maintains P (h e)) \<Longrightarrow> maintains P (try_except m cls h)"
  by (auto simp: maintains_def try_except_def split: prod.splits sum.splits)

lemma maintains_print: "(\<And>s x. P (s\<lparr>stdout := x\<rparr>) = P s) \<Longrightarrow> maintains P (print line)"
  by (simp add: maintains_def print_def)

lemma maintains_store_gauge:
  "(\<And>s x. P (s\<lparr>gauge_value := x\<rparr>) = P s) \<Longrightarrow> maintains P (store_gauge g v)"
  by (simp add: maintains_def store_gauge_def)

lemma maintains_Counter_inc:
  "(\<And>s x. P (s\<lparr>counter_value := x\<rparr>) = P s) \<Longrightarrow> maintains P (Counter_inc c a)"
  by (simp add: maintains_def Counter_inc_def)

lemma maintains_family_labels:
  "(\<And>s x. P (s\<lparr>family_children := x\<rparr>) = P s) \<Longrightarrow> maintains P (family_labels env fam a r)"
  by (simp add: maintains_def family_labels_def Let_def)

lemma maintains_store_child:
  "(\<And>s x. P (s\<lparr>family_children := x\<rparr>) = P s) \<Longrightarrow> maintains P (store_child fam k v)"
  by (simp add: maintains_def store_child_def)

lemma maintains_EXPORTER_ERRORS_inc:
  "(\<And>s x. P (s\<lparr>EXPORTER_ERRORS := x\<rparr>) = P s) \<Longrightarrow> maintains P (EXPORTER_ERRORS_inc t)"
  by (simp add: maintains_def EXPORTER_ERRORS_inc_def)

lemma maintains_Gauge:
  "(\<And>s x. P (s\<lparr>created_gauges := x\<rparr>) = P s) \<Longrightarrow> maintains P (Gauge name doc)"
  by (simp add: maintains_def Gauge_def)

lemma maintains_datetime_now: "maintains P (datetime_now env)"
  by (simp add: maintains_def datetime_now_def)

lemma maintains_time_sleep:
  "(\<And>s x. P (s\<lparr>world := x\<rparr>) = P s) \<Longrightarrow> maintains P (time_sleep env secs)"
  by (simp add: maintains_def time_sleep_def)

lemma maintains_retries:
  assumes "\<And>s x. P (s\<lparr>EXPORTER_ERRORS := x\<rparr>) = P s"
  shows "maintains P (bind (for_each xs (\<lambda>(err, next_try). on_retry err next_try)) (\<lambda>_. lift r))"
  by (auto intro!: maintains_bind maintains_for_each maintains_lift maintains_EXPORTER_ERRORS_inc
      simp: on_retry_def assms)

lemma maintains_bitcoinrpc:
  assumes "\<And>s x. P (s\<lparr>world := x\<rparr>) = P s" and "\<And>s x. P (s\<lparr>EXPORTER_ERRORS := x\<rparr>) = P s"
  shows "maintains P (bitcoinrpc env method args)"
  unfolding maintains_def bitcoinrpc_def
  by (auto split: prod.splits
      simp: maintains_retries[OF assms(2), unfolded maintains_def, rule_format] assms)

lemma maintains_get_block:
  assumes "\<And>s x. P (s\<lparr>world := x\<rparr>) = P s" and "\<And>s x. P (s\<lparr>EXPORTER_ERRORS := x\<rparr>) = P s"
    and "\<And>s x. P (s\<lparr>stdout := x\<rparr>) = P s"
  shows "maintains P (get_block env h)"
  unfolding get_block_def
  by (intro maintains_try_except maintains_bitcoinrpc maintains_bind maintains_print
      maintains_return assms)

lemma maintains_refresh_fetch:
  assumes "\<And>s x. P (s\<lparr>world := x\<rparr>) = P s" and "\<And>s x. P (s\<lparr>EXPORTER_ERRORS := x\<rparr>) = P s"
    and "\<And>s x. P (s\<lparr>stdout := x\<rparr>) = P s"
  shows "maintains P (refresh_fetch env)"
  unfolding refresh_fetch_def
  by (intro maintains_bind maintains_bitcoinrpc maintains_get_block maintains_lift
      maintains_return assms)

subsection \<open>The totals of a block\<close>








subsection \<open>Running the example node\<close>

lemma example_rpc:
  "bitcoinrpc (example_env ov) method args s =
     ((case ov method of None \<Rightarrow> example_response method | Some r \<Rightarrow> r),
      s\<lparr>world := Suc (world s)\<rparr>)"
  by (simp add: bitcoinrpc_def example_env_def bind_def return_def lift_def)


lemma fee_names:
  "py_format_d 2 = ''2''" "py_format_d 3 = ''3''" "py_format_d 5 = ''5''" "py_format_d 20 = ''20''"
  by (simp_all add: py_format_d_def str_nat.simps digit_char_def char_of_eq_iff)





subsection \<open>The latest-block lookup and the scheduler loop\<close>

lemma print_apply: "print x s = (Inr (), s\<lparr>stdout := stdout s @ [x]\<rparr>)"
  by (simp add: print_def)

lemma get_block_raised:
  assumes "bitcoinrpc env ''getblock'' [JStr block_hash, JNum 2] s = (Inl e, s1)"
  shows "get_block env block_hash s =
     (if isinstance e ''builtins.Exception''
      then (Inr JNull,
            s1\<lparr>stdout := stdout s1 @
               [exc_str e, ''Error: Can't retrieve block '' @ block_hash @ '' from bitcoind.'']\<rparr>)
      else (Inl e, s1))"
  by (simp add: get_block_def try_except_def assms bind_apply print_apply prog_apply)

lemma get_block_returned:
  assumes "bitcoinrpc env ''getblock'' [JStr block_hash, JNum 2] s = (Inr b, s1)"
  shows "get_block env block_hash s = (Inr b, s1)"
  by (simp add: get_block_def try_except_def assms)

lemma refresh_latest_block_None: "latest_block f = JNull \<Longrightarrow> refresh_latest_block env f = return ()"
  by (simp add: refresh_latest_block_def)

lemma example_exceptions:
  "isinstance JSONDecodeError ''builtins.Exception''"
  "isinstance JSONDecodeError ''json.decoder.JSONDecodeError''"
  "\<not> isinstance JSONDecodeError ''riprova.exceptions.RetryError''"
  "isinstance RetryTimeoutError ''builtins.Exception''"
  "isinstance RetryTimeoutError ''riprova.exceptions.RetryError''"
  "exception_name RetryTimeoutError = ''riprova.exceptions.RetryTimeoutError''"
  "exc_str JSONDecodeError = ''Expecting value: line 1 column 1 (char 0)''"
  "exc_str RetryTimeoutError = ''max timeout exceeded''"
  by (simp_all add: isinstance_def JSONDecodeError_def RetryTimeoutError_def)


lemma EXPORTER_ERRORS_inc_apply:
  "EXPORTER_ERRORS_inc t s =
     (Inr (), s\<lparr>EXPORTER_ERRORS := (EXPORTER_ERRORS s)
        (t := Some ((case EXPORTER_ERRORS s t of None \<Rightarrow> 0 | Some v \<Rightarrow> v) + 1))\<rparr>)"
  by (simp add: EXPORTER_ERRORS_inc_def)



lemma try_refresh_other:
  assumes "refresh_metrics env s = (Inl e, s1)" and "\<not> isinstance e ''riprova.exceptions.RetryError''"
    and "\<not> isinstance e ''json.decoder.JSONDecodeError''"
  shows "try_refresh env s = (Inl e, s1)"
  by (simp add: try_refresh_def assms)






subsection \<open>What the parts of a cycle maintain\<close>

lemma maintains_set_item:
  "(\<And>v. maintains P (store_gauge g v)) \<Longrightarrow> maintains P (set_item env g d k)"
  unfolding set_item_def Gauge_set_def
  by (intro maintains_bind maintains_lift)

lemma smartfee_gauge_Created:
  "smartfee_gauge n s = (Inr g, s') \<Longrightarrow> \<exists>k. g = Created k"
  by (auto simp: smartfee_gauge_def bind_apply split: option.splits prod.splits sum.splits)

lemma maintains_do_smartfee:
  assumes "\<And>s x. P (s\<lparr>world := x\<rparr>) = P s" and "\<And>s x. P (s\<lparr>EXPORTER_ERRORS := x\<rparr>) = P s"
    and "\<And>n. maintains P (smartfee_gauge n)"
    and "\<And>k v. maintains P (store_gauge (Created k) v)"
  shows "maintains P (do_smartfee env num_blocks)"
proof -
  have set: "maintains P (Gauge_set env g v)" if "\<exists>k. g = Created k" for g v
    using that unfolding Gauge_set_def
    by (auto intro!: maintains_bind maintains_lift assms(4))
  show ?thesis
    unfolding do_smartfee_def
    apply (intro maintains_bind maintains_bitcoinrpc maintains_lift assms(1,2))
    apply (simp add: maintains_return)
    apply (intro impI maintains_bind_post[where Q="\<lambda>g. \<exists>k. g = Created k"] assms(3))
     apply (erule smartfee_gauge_Created)
    apply (erule set)
    done
qed

lemma maintains_refresh_ban:
  assumes "\<And>fam a r. maintains P (family_labels env fam a r)"
    and "\<And>fam k v. maintains P (store_child fam k v)"
  shows "maintains P (refresh_ban env ban)"
  unfolding refresh_ban_def child_set_def
  by (intro maintains_bind maintains_lift assms)

lemma maintains_refresh_bans:
  assumes "\<And>fam a r. maintains P (family_labels env fam a r)"
    and "\<And>fam k v. maintains P (store_child fam k v)"
  shows "maintains P (refresh_bans env f)"
  unfolding refresh_bans_def
  by (intro maintains_bind maintains_lift maintains_for_each maintains_refresh_ban assms)

lemma maintains_refresh_warnings:
  assumes "maintains P (Counter_inc BITCOIN_WARNINGS 1)"
  shows "maintains P (refresh_warnings f)"
  unfolding refresh_warnings_def
  by (auto intro!: maintains_bind maintains_lift maintains_return assms)

lemma maintains_refresh_node:
  assumes "\<And>g v. g \<notin> set block_gauges \<Longrightarrow> maintains P (store_gauge g v)"
  shows "maintains P (refresh_node env f)"
  unfolding refresh_node_def
  by (rule maintains_run_all) (auto intro!: maintains_set_item assms simp: block_gauges_def)

lemma maintains_refresh_resources:
  assumes "\<And>g v. g \<notin> set block_gauges \<Longrightarrow> maintains P (store_gauge g v)"
  shows "maintains P (refresh_resources env f)"
  unfolding refresh_resources_def
  by (rule maintains_run_all) (auto intro!: maintains_set_item assms simp: block_gauges_def)

lemma maintains_refresh_publish:
  assumes "\<And>s x. P (s\<lparr>world := x\<rparr>) = P s" and "\<And>s x. P (s\<lparr>EXPORTER_ERRORS := x\<rparr>) = P s"
    and "\<And>n. maintains P (smartfee_gauge n)"
    and "\<And>fam a r. maintains P (family_labels env fam a r)"
    and "\<And>fam k v. maintains P (store_child fam k v)"
    and "maintains P (Counter_inc BITCOIN_WARNINGS 1)"
    and "\<And>g v. g \<notin> set block_gauges \<Longrightarrow> maintains P (store_gauge g v)"
  shows "maintains P (refresh_publish env f)"
proof -
  have created: "maintains P (store_gauge (Created k) v)" for k v
    by (rule assms(7)) (simp add: block_gauges_def)
  show ?thesis
    unfolding refresh_publish_def
    by (rule maintains_run_all)
      (auto intro!: maintains_refresh_node maintains_for_each maintains_do_smartfee
        maintains_refresh_bans maintains_refresh_warnings maintains_refresh_resources
        assms created)
qed

lemma maintains_refresh_latest_block:
  assumes "\<And>g v. g \<in> set block_gauges \<Longrightarrow> maintains P (store_gauge g v)"
  shows "maintains P (refresh_latest_block env f)"
proof -
  have totals: "maintains P (case t of (inputs, outputs, value) \<Rightarrow>
           run_all
             [store_gauge BITCOIN_LATEST_BLOCK_INPUTS (of_int inputs),
              store_gauge BITCOIN_LATEST_BLOCK_OUTPUTS (of_int outputs),
              store_gauge BITCOIN_LATEST_BLOCK_VALUE value])" for t :: "int \<times> int \<times> rat"
    by (cases t) (auto simp del: run_all.simps intro!: maintains_run_all assms simp: block_gauges_def)
  show ?thesis
    unfolding refresh_latest_block_def
    by (auto simp del: run_all.simps intro!: maintains_run_all maintains_return maintains_set_item
        maintains_bind maintains_lift assms totals simp: block_gauges_def)
qed

lemma maintains_refresh_metrics:
  assumes "\<And>s x. P (s\<lparr>world := x\<rparr>) = P s" and "\<And>s x. P (s\<lparr>EXPORTER_ERRORS := x\<rparr>) = P s"
    and "\<And>s x. P (s\<lparr>stdout := x\<rparr>) = P s"
    and "\<And>n. maintains P (smartfee_gauge n)"
    and "\<And>fam a r. maintains P (family_labels env fam a r)"
    and "\<And>fam k v. maintains P (store_child fam k v)"
    and "maintains P (Counter_inc BITCOIN_WARNINGS 1)"
    and "\<And>g v. maintains P (store_gauge g v)"
  shows "maintains P (refresh_metrics env)"
  unfolding refresh_metrics_def
  by (intro maintains_bind maintains_refresh_fetch maintains_refresh_publish
      maintains_refresh_latest_block assms)



subsection \<open>Cycles of the example node\<close>








subsection \<open>The warnings counter\<close>


lemma maintains_counter_store_gauge:
  "maintains (\<lambda>s. counter_value s c = v) (store_gauge g x)"
  by (simp add: maintains_store_gauge)









subsection \<open>A full cycle of the example node\<close>




subsection \<open>The banned peers\<close>






lemma family_children_same:
  "s\<lparr>family_children := (family_children s)
        (BITCOIN_BAN_CREATED := family_children s BITCOIN_BAN_CREATED,
         BITCOIN_BANNED_UNTIL := family_children s BITCOIN_BANNED_UNTIL)\<rparr> = s"
  by simp












subsection \<open>Retried calls\<close>

lemma error_evaluator_iff:
  "error_evaluator e \<longleftrightarrow>
     isinstance e ''bitcoin.rpc.InWarmupError'' \<or> isinstance e ''builtins.ConnectionRefusedError''"
  by (simp add: error_evaluator_def RETRY_EXCEPTIONS_def)

lemma on_retry_apply:
  "on_retry err next_try s =
     (Inr (), s\<lparr>EXPORTER_ERRORS := (EXPORTER_ERRORS s)
        (exception_name err :=
           Some ((case EXPORTER_ERRORS s (exception_name err) of None \<Rightarrow> 0 | Some v \<Rightarrow> v) + 1))\<rparr>)"
  by (simp add: on_retry_def EXPORTER_ERRORS_inc_apply)



subsection \<open>A failed latest-block lookup\<close>









subsection \<open>The names of the fee gauges\<close>

lemma digit_char_inj:
  assumes "d < 10" and "d' < 10" and "digit_char d = digit_char d'"
  shows "d = d'"
  using assms by (simp add: digit_char_def)

lemma digit_char_not_minus: "d < 10 \<Longrightarrow> digit_char d \<noteq> CHR ''-''"
  by (simp add: digit_char_def char_of_eq_iff take_bit_eq_mod)

lemma str_nat_not_Nil: "str_nat n \<noteq> []"
  by (subst str_nat.simps) simp

lemma str_nat_digits: "c \<in> set (str_nat n) \<Longrightarrow> \<exists>d<10. c = digit_char d"
proof (induction n rule: str_nat.induct)
  case (1 n)
  show ?case
  proof (cases "n < 10")
    case True
    with "1.prems" show ?thesis by (subst (asm) str_nat.simps) auto
  next
    case False
    from "1.prems" have "c \<in> set (str_nat (n div 10)) \<or> c = digit_char (n mod 10)"
      using False by (subst (asm) str_nat.simps) auto
    then show ?thesis
      using "1.IH"[OF False] by (auto intro: exI[of _ "n mod 10"])
  qed
qed

lemma str_nat_inj: "str_nat n = str_nat m \<Longrightarrow> n = m"
proof (induction n arbitrary: m rule: str_nat.induct)
  case (1 n)
  show ?case
  proof (cases "n < 10")
    case True
    then have n: "str_nat n = [digit_char n]" by (subst str_nat.simps) simp
    show ?thesis
    proof (cases "m < 10")
      case m: True
      then have "str_nat m = [digit_char m]" by (subst str_nat.simps) simp
      with n "1.prems" True m show ?thesis by (auto dest: digit_char_inj)
    next
      case False
      then have "str_nat m = str_nat (m div 10) @ [digit_char (m mod 10)]"
        by (subst str_nat.simps) simp
      with n "1.prems" have "str_nat (m div 10) = []" by simp
      then show ?thesis using str_nat_not_Nil by blast
    qed
  next
    case False
    then have n: "str_nat n = str_nat (n div 10) @ [digit_char (n mod 10)]"
      by (subst str_nat.simps) simp
    show ?thesis
    proof (cases "m < 10")
      case True
      then have "str_nat m = [digit_char m]" by (subst str_nat.simps) simp
      with n "1.prems" have "str_nat (n div 10) = []" by simp
      then show ?thesis using str_nat_not_Nil by blast
    next
      case m: False
      then have "str_nat m = str_nat (m div 10) @ [digit_char (m mod 10)]"
        by (subst str_nat.simps) simp
      with n "1.prems" have a: "str_nat (n div 10) = str_nat (m div 10)"
        and b: "digit_char (n mod 10) = digit_char (m mod 10)" by simp_all
      from "1.IH"[OF False a] have "n div 10 = m div 10" .
      moreover from b have "n mod 10 = m mod 10" by (auto dest!: digit_char_inj[rotated 2])
      ultimately show ?thesis by (metis div_mult_mod_eq)
    qed
  qed
qed

lemma py_format_d_inj: "py_format_d i = py_format_d j \<Longrightarrow> i = j"
proof -
  assume eq: "py_format_d i = py_format_d j"
  have no_minus: "hd (str_nat n) \<noteq> CHR ''-''" for n
    using str_nat_digits[of "hd (str_nat n)" n] str_nat_not_Nil[of n] digit_char_not_minus
    by (metis hd_in_set)
  have neq: "CHR ''-'' # xs \<noteq> str_nat n" for xs n
    using no_minus[of n] by (metis list.sel(1))
  show "i = j"
  proof (cases "i < 0"; cases "j < 0")
    assume "i < 0" "j < 0"
    with eq have "nat (- i) = nat (- j)" by (auto simp: py_format_d_def dest: str_nat_inj)
    with \<open>i < 0\<close> \<open>j < 0\<close> show ?thesis by simp
  next
    assume "i < 0" "\<not> j < 0"
    with eq neq show ?thesis by (auto simp: py_format_d_def)
  next
    assume "\<not> i < 0" "j < 0"
    with eq neq[of _ "nat i"] show ?thesis by (auto simp: py_format_d_def)
  next
    assume "\<not> i < 0" "\<not> j < 0"
    with eq have "nat i = nat j" by (auto simp: py_format_d_def dest: str_nat_inj)
    with \<open>\<not> i < 0\<close> \<open>\<not> j < 0\<close> show ?thesis by simp
  qed
qed

lemma fee_gauge_name_inj: "fee_gauge_name n = fee_gauge_name m \<Longrightarrow> n = m"
  by (simp add: fee_gauge_name_def py_format_d_inj)

lemma fee_gauge_name_not_static: "fee_gauge_name n \<notin> set static_names"
  by (simp add: fee_gauge_name_def static_names_def)

subsection \<open>The fee gauges and their dictionary\<close>

lemma smartfee_gauge_known:
  "BITCOIN_ESTIMATED_SMART_FEE_GAUGES s n = Some k \<Longrightarrow> smartfee_gauge n s = (Inr (Created k), s)"
  by (simp add: smartfee_gauge_def)

lemma fee_gauges_ok_fresh_name:
  assumes "fee_gauges_ok s" and "BITCOIN_ESTIMATED_SMART_FEE_GAUGES s n = None"
  shows "fee_gauge_name n \<notin> fst ` set (created_gauges s)"
proof
  assume "fee_gauge_name n \<in> fst ` set (created_gauges s)"
  then obtain k where k: "k < length (created_gauges s)"
    and nm: "fst (created_gauges s ! k) = fee_gauge_name n"
    by (auto simp: in_set_conv_nth)
  from assms(1) k obtain m where m: "BITCOIN_ESTIMATED_SMART_FEE_GAUGES s m = Some k"
    by (auto simp: fee_gauges_ok_def)
  with assms(1) have "fst (created_gauges s ! k) = fee_gauge_name m"
    by (auto simp: fee_gauges_ok_def)
  with nm have "m = n" by (auto dest: fee_gauge_name_inj)
  with m assms(2) show False by simp
qed

lemma smartfee_gauge_new:
  assumes "fee_gauges_ok s" and "BITCOIN_ESTIMATED_SMART_FEE_GAUGES s n = None"
  shows "smartfee_gauge n s =
     (Inr (Created (length (created_gauges s))),
      s\<lparr>created_gauges := created_gauges s @
           [(fee_gauge_name n,
             ''Estimated smart fee per kilobyte for confirmation in '' @ py_format_d n @ '' blocks'')],
        BITCOIN_ESTIMATED_SMART_FEE_GAUGES :=
          (BITCOIN_ESTIMATED_SMART_FEE_GAUGES s)(n := Some (length (created_gauges s)))\<rparr>)"
  using fee_gauges_ok_fresh_name[OF assms] fee_gauge_name_not_static[of n] assms(2)
  by (simp add: smartfee_gauge_def Gauge_def bind_apply fee_gauge_name_def)

lemma fee_gauges_ok_new:
  assumes "fee_gauges_ok s" and "BITCOIN_ESTIMATED_SMART_FEE_GAUGES s n = None"
  shows "fee_gauges_ok (s\<lparr>created_gauges := created_gauges s @ [(fee_gauge_name n, doc)],
        BITCOIN_ESTIMATED_SMART_FEE_GAUGES :=
          (BITCOIN_ESTIMATED_SMART_FEE_GAUGES s)(n := Some (length (created_gauges s)))\<rparr>)"
proof -
  let ?d = "BITCOIN_ESTIMATED_SMART_FEE_GAUGES s"
  let ?c = "created_gauges s"
  have 1: "k < length (?c @ [(fee_gauge_name n, doc)])
      \<and> fst ((?c @ [(fee_gauge_name n, doc)]) ! k) = fee_gauge_name m"
    if "(?d(n := Some (length ?c))) m = Some k" for m k
  proof (cases "m = n")
    case True
    with that have "k = length ?c" by simp
    with True show ?thesis by (simp add: nth_append)
  next
    case False
    with that have "?d m = Some k" by simp
    with assms(1) have "k < length ?c \<and> fst (?c ! k) = fee_gauge_name m"
      by (simp add: fee_gauges_ok_def)
    then show ?thesis by (simp add: nth_append)
  qed
  have 2: "\<exists>m. (?d(n := Some (length ?c))) m = Some k"
    if "k < length (?c @ [(fee_gauge_name n, doc)])" for k
  proof (cases "k = length ?c")
    case True
    then show ?thesis by (intro exI[of _ n]) simp
  next
    case False
    with that have "k < length ?c" by simp
    with assms(1) obtain m where m: "?d m = Some k" by (auto simp: fee_gauges_ok_def)
    with assms(2) have "m \<noteq> n" by auto
    with m show ?thesis by (intro exI[of _ m]) simp
  qed
  show ?thesis
    unfolding fee_gauges_ok_def using 1 2 by simp
qed

lemma maintains_fee_gauges_ok_smartfee_gauge: "maintains fee_gauges_ok (smartfee_gauge n)"
  unfolding maintains_def
proof (intro allI impI)
  fix s :: "'a state" assume ok: "fee_gauges_ok s"
  show "fee_gauges_ok (snd (smartfee_gauge n s))"
  proof (cases "BITCOIN_ESTIMATED_SMART_FEE_GAUGES s n")
    case None
    then show ?thesis using smartfee_gauge_new[OF ok None] fee_gauges_ok_new[OF ok None] by simp
  next
    case (Some k)
    then show ?thesis using ok by (simp add: smartfee_gauge_known)
  qed
qed

lemma maintains_fee_gauges_ok_refresh_metrics: "maintains fee_gauges_ok (refresh_metrics env)"
  by (rule maintains_refresh_metrics)
     (simp_all add: maintains_fee_gauges_ok_smartfee_gauge,
      simp_all add: fee_gauges_ok_def maintains_def family_labels_def Let_def store_child_def
        Counter_inc_def store_gauge_def)

lemma maintains_try_refresh:
  assumes "maintains P (refresh_metrics env)"
    and "\<And>s x. P (s\<lparr>stdout := x\<rparr>) = P s" and "\<And>s x. P (s\<lparr>EXPORTER_ERRORS := x\<rparr>) = P s"
  shows "maintains P (try_refresh env)"
  unfolding maintains_def
proof (intro allI impI)
  fix s assume P: "P s"
  obtain r s1 where r: "refresh_metrics env s = (r, s1)" by (cases "refresh_metrics env s")
  have "P s1" using maintainsD[OF assms(1) r P] .
  then show "P (snd (try_refresh env s))"
    by (cases r)
       (simp_all add: try_refresh_def r bind_apply print_apply prog_apply exception_count_def
          EXPORTER_ERRORS_inc_apply assms(2,3))
qed

lemma maintains_main_cycle:
  assumes "maintains P (refresh_metrics env)"
    and "\<And>s x. P (s\<lparr>stdout := x\<rparr>) = P s" and "\<And>s x. P (s\<lparr>EXPORTER_ERRORS := x\<rparr>) = P s"
    and "\<And>s x. P (s\<lparr>counter_value := x\<rparr>) = P s" and "\<And>s x. P (s\<lparr>world := x\<rparr>) = P s"
  shows "maintains P (main_cycle env)"
  unfolding main_cycle_def
  by (intro maintains_bind maintains_datetime_now maintains_try_refresh maintains_Counter_inc
      maintains_time_sleep assms)

lemma main_maintains:
  assumes "maintains P (main_cycle env)" and "P s"
  shows "P (snd (main k env s))"
  using assms(2)
proof (induction k arbitrary: s)
  case 0
  then show ?case by simp
next
  case (Suc k)
  obtain r s1 where c: "main_cycle env s = (r, s1)" by (cases "main_cycle env s")
  have "P s1" using maintainsD[OF assms(1) c Suc.prems] .
  then show ?case using Suc.IH[of s1] by (cases r) (simp_all add: c)
qed

lemma fee_gauges_ok_main: "fee_gauges_ok s \<Longrightarrow> fee_gauges_ok (snd (main k env s))"
  by (rule main_maintains[OF maintains_main_cycle[OF maintains_fee_gauges_ok_refresh_metrics]])
     (simp_all add: fee_gauges_ok_def)

lemma fee_gauges_ok_initial: "fee_gauges_ok (initial_state w)"
  by (simp add: fee_gauges_ok_def initial_state_def)

lemma fee_gauges_ok_distinct:
  assumes "fee_gauges_ok s"
  shows "distinct (map fst (created_gauges s))"
  unfolding distinct_conv_nth
proof (intro allI impI)
  fix i j assume i: "i < length (map fst (created_gauges s))"
    and j: "j < length (map fst (created_gauges s))" and ne: "i \<noteq> j"
  from assms i j obtain n m where n: "BITCOIN_ESTIMATED_SMART_FEE_GAUGES s n = Some i"
    and m: "BITCOIN_ESTIMATED_SMART_FEE_GAUGES s m = Some j"
    unfolding fee_gauges_ok_def by (metis length_map)
  with assms have "fst (created_gauges s ! i) = fee_gauge_name n"
    and "fst (created_gauges s ! j) = fee_gauge_name m"
    by (auto simp: fee_gauges_ok_def)
  moreover have "n \<noteq> m" using n m ne by auto
  ultimately show "map fst (created_gauges s) ! i \<noteq> map fst (created_gauges s) ! j"
    using i j by (auto dest: fee_gauge_name_inj)
qed

lemma distinct_filter_le_1:
  "distinct (map f xs) \<Longrightarrow> length (filter (\<lambda>x. f x = a) xs) \<le> 1"
  by (induction xs) (auto simp: filter_empty_conv image_iff)

lemma maintains_fee_entry_smartfee_gauge:
  "maintains (\<lambda>s. BITCOIN_ESTIMATED_SMART_FEE_GAUGES s n = Some j) (smartfee_gauge m)"
  unfolding maintains_def smartfee_gauge_def
  by (auto simp: bind_apply Gauge_def split: option.splits)

lemma fee_entry_main:
  assumes "BITCOIN_ESTIMATED_SMART_FEE_GAUGES s n = Some j"
  shows "BITCOIN_ESTIMATED_SMART_FEE_GAUGES (snd (main k env s)) n = Some j"
proof -
  have "maintains (\<lambda>s. BITCOIN_ESTIMATED_SMART_FEE_GAUGES s n = Some j) (refresh_metrics env)"
    by (rule maintains_refresh_metrics)
       (simp_all add: maintains_fee_entry_smartfee_gauge maintains_family_labels
          maintains_store_child maintains_Counter_inc maintains_store_gauge)
  from main_maintains[OF maintains_main_cycle[OF this], of s k] assms show ?thesis by simp
qed

lemma fee_gauges_ok_count:
  assumes "fee_gauges_ok s" and "BITCOIN_ESTIMATED_SMART_FEE_GAUGES s n = Some j"
  shows "length (filter (\<lambda>c. fst c = fee_gauge_name n) (created_gauges s)) = 1"
proof -
  from assms have j: "j < length (created_gauges s)" and nm: "fst (created_gauges s ! j) = fee_gauge_name n"
    by (auto simp: fee_gauges_ok_def)
  then have "created_gauges s ! j \<in> set (filter (\<lambda>c. fst c = fee_gauge_name n) (created_gauges s))"
    by simp
  then have "filter (\<lambda>c. fst c = fee_gauge_name n) (created_gauges s) \<noteq> []"
    by (metis empty_iff empty_set)
  then have "1 \<le> length (filter (\<lambda>c. fst c = fee_gauge_name n) (created_gauges s))"
    by (cases "filter (\<lambda>c. fst c = fee_gauge_name n) (created_gauges s)") simp_all
  with distinct_filter_le_1[OF fee_gauges_ok_distinct[OF assms(1)], of "fee_gauge_name n"]
  show ?thesis by simp
qed

lemma fee_gauges_ok_name:
  "fee_gauges_ok s \<Longrightarrow> BITCOIN_ESTIMATED_SMART_FEE_GAUGES s n = Some k \<Longrightarrow>
   fst (created_gauges s ! k) = fee_gauge_name n"
  by (simp add: fee_gauges_ok_def)

lemma smartfee_gauge_lookup:
  assumes "fee_gauges_ok s"
  obtains j s1 where "smartfee_gauge n s = (Inr (Created j), s1)" and "fee_gauges_ok s1"
    and "BITCOIN_ESTIMATED_SMART_FEE_GAUGES s1 n = Some j"
    and "length (created_gauges s1) =
           length (created_gauges s) + (if BITCOIN_ESTIMATED_SMART_FEE_GAUGES s n = None then 1 else 0)"
    and "\<And>m i. BITCOIN_ESTIMATED_SMART_FEE_GAUGES s m = Some i \<Longrightarrow>
           BITCOIN_ESTIMATED_SMART_FEE_GAUGES s1 m = Some i"
    and "gauge_value s1 = gauge_value s"
proof (cases "BITCOIN_ESTIMATED_SMART_FEE_GAUGES s n")
  case None
  have keep: "((BITCOIN_ESTIMATED_SMART_FEE_GAUGES s)(n := Some (length (created_gauges s)))) m = Some i"
    if "BITCOIN_ESTIMATED_SMART_FEE_GAUGES s m = Some i" for m i
    using that None by (cases "m = n") simp_all
  show ?thesis
  proof (rule that[OF smartfee_gauge_new[OF assms None] fee_gauges_ok_new[OF assms None]])
    fix m i assume "BITCOIN_ESTIMATED_SMART_FEE_GAUGES s m = Some i"
    from keep[OF this]
    show "BITCOIN_ESTIMATED_SMART_FEE_GAUGES
           (s\<lparr>created_gauges := created_gauges s @
               [(fee_gauge_name n,
                 ''Estimated smart fee per kilobyte for confirmation in '' @ py_format_d n @ '' blocks'')],
             BITCOIN_ESTIMATED_SMART_FEE_GAUGES :=
               (BITCOIN_ESTIMATED_SMART_FEE_GAUGES s)(n := Some (length (created_gauges s)))\<rparr>) m = Some i"
      by simp
  qed (simp_all add: None)
next
  case (Some j)
  show ?thesis
    using that[OF smartfee_gauge_known[OF Some] assms Some] Some by simp
qed

subsection \<open>The plain gauges of a cycle\<close>













section \<open>The claims\<close>








text \<open>
  C5. In every state in which the dictionary of fee gauges and the gauges created at run
  time fit together (the initial state is one, and every number of cycles keeps it so):
  a lookup of a target count returns a gauge and never fails; it creates the gauge only
  when the dictionary has no entry for the count; the same lookup again, at once or any
  number of cycles later, returns the same gauge and creates nothing; exactly one created
  gauge then carries the name of that count, and at no time more than one. A lookup of a
  different count returns a different gauge, and storing a value in either of the two
  leaves the value of the other.
\<close>

theorem smartfee_gauge_created_once:
  assumes "fee_gauges_ok s"
  shows "(\<exists>g s1. smartfee_gauge n s = (Inr g, s1)
      \<and> fee_gauges_ok s1
      \<and> smartfee_gauge n s1 = (Inr g, s1)
      \<and> length (created_gauges s1) =
          length (created_gauges s) + (if BITCOIN_ESTIMATED_SMART_FEE_GAUGES s n = None then 1 else 0)
      \<and> length (filter (\<lambda>c. fst c = fee_gauge_name n) (created_gauges s1)) = 1
      \<and> fst (smartfee_gauge n (snd (main k env s1))) = Inr g
      \<and> (m \<noteq> n \<longrightarrow>
           (\<exists>g' s2. smartfee_gauge m s1 = (Inr g', s2) \<and> g' \<noteq> g
              \<and> smartfee_gauge n s2 = (Inr g, s2)
              \<and> gauge_value (snd (store_gauge g x s2)) g = x
              \<and> gauge_value (snd (store_gauge g x s2)) g' = gauge_value s2 g'
              \<and> gauge_value (snd (store_gauge g' y s2)) g' = y
              \<and> gauge_value (snd (store_gauge g' y s2)) g = gauge_value s2 g)))
    \<and> fee_gauges_ok (snd (main k env s))
    \<and> length (filter (\<lambda>c. fst c = fee_gauge_name n) (created_gauges (snd (main k env s)))) \<le> 1"
proof -
  from assms obtain j s1 where 1: "smartfee_gauge n s = (Inr (Created j), s1)"
    and ok1: "fee_gauges_ok s1" and e1: "BITCOIN_ESTIMATED_SMART_FEE_GAUGES s1 n = Some j"
    and len: "length (created_gauges s1) =
           length (created_gauges s) + (if BITCOIN_ESTIMATED_SMART_FEE_GAUGES s n = None then 1 else 0)"
    by (rule smartfee_gauge_lookup)
  have again: "smartfee_gauge n s1 = (Inr (Created j), s1)"
    using e1 by (rule smartfee_gauge_known)
  have count: "length (filter (\<lambda>c. fst c = fee_gauge_name n) (created_gauges s1)) = 1"
    using ok1 e1 by (rule fee_gauges_ok_count)
  have later: "fst (smartfee_gauge n (snd (main k env s1))) = Inr (Created j)"
    using smartfee_gauge_known[OF fee_entry_main[OF e1, of k env]] by simp
  have other: "\<exists>g' s2. smartfee_gauge m s1 = (Inr g', s2) \<and> g' \<noteq> Created j
              \<and> smartfee_gauge n s2 = (Inr (Created j), s2)
              \<and> gauge_value (snd (store_gauge (Created j) x s2)) (Created j) = x
              \<and> gauge_value (snd (store_gauge (Created j) x s2)) g' = gauge_value s2 g'
              \<and> gauge_value (snd (store_gauge g' y s2)) g' = y
              \<and> gauge_value (snd (store_gauge g' y s2)) (Created j) = gauge_value s2 (Created j)"
    if ne: "m \<noteq> n"
  proof -
    from ok1 obtain i s2 where 2: "smartfee_gauge m s1 = (Inr (Created i), s2)"
      and ok2: "fee_gauges_ok s2" and e2: "BITCOIN_ESTIMATED_SMART_FEE_GAUGES s2 m = Some i"
      and keep: "\<And>m i. BITCOIN_ESTIMATED_SMART_FEE_GAUGES s1 m = Some i \<Longrightarrow>
           BITCOIN_ESTIMATED_SMART_FEE_GAUGES s2 m = Some i"
      by (rule smartfee_gauge_lookup[of s1 m]) blast
    have en: "BITCOIN_ESTIMATED_SMART_FEE_GAUGES s2 n = Some j"
      using keep[OF e1] .
    have "i \<noteq> j"
    proof
      assume "i = j"
      with fee_gauges_ok_name[OF ok2 e2] fee_gauges_ok_name[OF ok2 en]
      have "fee_gauge_name m = fee_gauge_name n"
        by simp
      with ne show False by (auto dest: fee_gauge_name_inj)
    qed
    then show ?thesis
      using 2 smartfee_gauge_known[OF en] by (simp add: store_gauge_def)
  qed
  have cycles: "fee_gauges_ok (snd (main k env s))"
    using assms by (rule fee_gauges_ok_main)
  have once: "length (filter (\<lambda>c. fst c = fee_gauge_name n) (created_gauges (snd (main k env s)))) \<le> 1"
    using distinct_filter_le_1[OF fee_gauges_ok_distinct[OF cycles]] .
  show ?thesis
    using 1 ok1 again len count later other cycles once by auto
qed

theorem smartfee_gauge_created_once_witness:
  "fee_gauges_ok (initial_state (0::nat))
   \<and> fst (smartfee_gauge 2 (initial_state (0::nat))) = Inr (Created 0)
   \<and> fst (smartfee_gauge 2 (snd (smartfee_gauge 2 (initial_state (0::nat))))) = Inr (Created 0)
   \<and> fst (smartfee_gauge 3 (snd (smartfee_gauge 2 (initial_state (0::nat))))) = Inr (Created 1)
   \<and> map fst (created_gauges (snd (smartfee_gauge 2 (snd (smartfee_gauge 2 (initial_state (0::nat)))))))
       = [''bitcoin_est_smart_fee_2'']
   \<and> length (filter (\<lambda>c. fst c = fee_gauge_name 2)
        (created_gauges (snd (main 2 (example_env Map.empty) (initial_state 0))))) \<le> 1"
proof -
  note T = smartfee_gauge_created_once[OF fee_gauges_ok_initial[of "0::nat"],
      where n = 2 and m = 3 and k = 2 and env = "example_env Map.empty"]
  have once: "length (filter (\<lambda>c. fst c = fee_gauge_name 2)
        (created_gauges (snd (main 2 (example_env Map.empty) (initial_state 0))))) \<le> 1"
    using T[THEN conjunct2, THEN conjunct2] .
  have run: "fst (smartfee_gauge 2 (initial_state (0::nat))) = Inr (Created 0)"
    "fst (smartfee_gauge 2 (snd (smartfee_gauge 2 (initial_state (0::nat))))) = Inr (Created 0)"
    "fst (smartfee_gauge 3 (snd (smartfee_gauge 2 (initial_state (0::nat))))) = Inr (Created 1)"
    "map fst (created_gauges (snd (smartfee_gauge 2 (snd (smartfee_gauge 2 (initial_state (0::nat)))))))
       = [''bitcoin_est_smart_fee_2'']"
    by (simp_all add: smartfee_gauge_def Gauge_def bind_apply static_names_def fee_names
        initial_state_def)
  show ?thesis
    using once run fee_gauges_ok_initial[of "0::nat"] by blast
qed










text \<open>
  C10. When the \<open>getblock\<close> call raises any instance of \<open>Exception\<close>, a protocol failure
  included, \<open>get_block\<close> prints the exception and an error line and returns \<open>None\<close>; nothing
  propagates. With \<open>None\<close> as the latest block, the cycle skips the block instruments.
\<close>

theorem get_block_swallows_exceptions:
  assumes "bitcoinrpc env ''getblock'' [JStr block_hash, JNum 2] s = (Inl e, s1)"
    and "isinstance e ''builtins.Exception''"
  shows "get_block env block_hash s =
     (Inr JNull,
      s1\<lparr>stdout := stdout s1 @
         [exc_str e, ''Error: Can't retrieve block '' @ block_hash @ '' from bitcoind.'']\<rparr>)
    \<and> refresh_latest_block env (f\<lparr>latest_block := JNull\<rparr>) s2 = (Inr (), s2)"
  by (simp add: get_block_raised[OF assms(1)] assms(2) refresh_latest_block_None prog_apply)

theorem get_block_swallows_exceptions_witness:
  "get_block (example_env [''getblock'' \<mapsto> Inl JSONDecodeError]) ''00ab'' (initial_state 7) =
     (Inr JNull,
      (initial_state 7)\<lparr>world := 8,
         stdout := [''Expecting value: line 1 column 1 (char 0)'',
                    ''Error: Can't retrieve block 00ab from bitcoind.'']\<rparr>)
   \<and> refresh_latest_block (example_env [''getblock'' \<mapsto> Inl JSONDecodeError])
         (example_fetched\<lparr>latest_block := JNull\<rparr>) (initial_state 7) = (Inr (), initial_state 7)"
proof -
  have call: "bitcoinrpc (example_env [''getblock'' \<mapsto> Inl JSONDecodeError]) ''getblock''
      [JStr ''00ab'', JNum 2] (initial_state 7) = (Inl JSONDecodeError, (initial_state 7)\<lparr>world := 8\<rparr>)"
    by (simp add: example_rpc initial_state_def)
  show ?thesis
    using get_block_swallows_exceptions[OF call example_exceptions(1),
        of "example_fetched" "initial_state 7"]
    by (simp add: example_exceptions initial_state_def)
qed

end
